theory Spec2Isabelle
  imports Complex_Main "HOL-Library.Sublist" "HOL-Library.Char_ord" "HOL-Library.List_Lexorder"
begin

section \<open>JavaScript numbers and the risk colour of a score\<close>

text \<open>
  A score reaching the dashboard is a JavaScript number: a finite value, one of the two
  infinities, or NaN (which is also what \<^verbatim>\<open>undefined >= 85\<close> compares as).
  Finite values are taken as reals; the comparisons of the source are exact on them.
\<close>

datatype jsnum = Num real | PosInf | NegInf | NaN

text \<open>\<^verbatim>\<open>x >= c\<close> and \<^verbatim>\<open>x < c\<close> for a finite constant \<open>c\<close>: every comparison with NaN is false.\<close>

fun js_ge :: "jsnum \<Rightarrow> real \<Rightarrow> bool" where
  "js_ge (Num x) c = (c \<le> x)"
| "js_ge PosInf c = True"
| "js_ge NegInf c = False"
| "js_ge NaN c = False"

fun js_lt :: "jsnum \<Rightarrow> real \<Rightarrow> bool" where
  "js_lt (Num x) c = (x < c)"
| "js_lt PosInf c = False"
| "js_lt NegInf c = True"
| "js_lt NaN c = False"

text \<open>
  \<^verbatim>\<open>getRiskColor\<close> of \<^verbatim>\<open>EntityList.jsx\<close>:
  \<^verbatim>\<open>if (score >= 85) return 'risk-high'; if (score >= 70) return 'risk-medium'; return 'risk-low';\<close>
\<close>

definition getRiskColor_EntityList :: "jsnum \<Rightarrow> string" where
  "getRiskColor_EntityList score =
     (if js_ge score 85 then ''risk-high''
      else if js_ge score 70 then ''risk-medium''
      else ''risk-low'')"

text \<open>\<^verbatim>\<open>getRiskColor\<close> of \<^verbatim>\<open>EntityDetail.jsx\<close>.\<close>

definition getRiskColor_EntityDetail :: "jsnum \<Rightarrow> string" where
  "getRiskColor_EntityDetail score =
     (if js_ge score 85 then ''risk-high''
      else if js_ge score 70 then ''risk-medium''
      else ''risk-low'')"

text \<open>\<^verbatim>\<open>getRiskColor\<close> of the \<^verbatim>\<open>EntityDetail\<close> variant appended to \<^verbatim>\<open>ClaimsTable.jsx\<close>.\<close>

definition getRiskColor_ClaimsTable :: "jsnum \<Rightarrow> string" where
  "getRiskColor_ClaimsTable score =
     (if js_ge score 85 then ''risk-high''
      else if js_ge score 70 then ''risk-medium''
      else ''risk-low'')"

text \<open>
  The classification as the specification words it: high exactly from 85 up, medium exactly
  on the band from 70 up to but excluding 85, low otherwise.
\<close>

definition risk_class_spec :: "jsnum \<Rightarrow> string" where
  "risk_class_spec score =
     (if js_ge score 85 then ''risk-high''
      else if js_ge score 70 \<and> js_lt score 85 then ''risk-medium''
      else ''risk-low'')"

section \<open>Community statistics of the entity detail view\<close>

text \<open>
  A row of \<^verbatim>\<open>communityMembers\<close>; its \<^verbatim>\<open>entity_name\<close> is the field \<open>member_name\<close>
  here. The source reads \<^verbatim>\<open>member.is_fraud\<close> for its truthiness only, so the field holds
  that truth value. Community ids are integers; as property keys of the \<^verbatim>\<open>stats\<close>
  object distinct integers stay distinct and meet no inherited property.
\<close>

record member_row =
  community_id :: int
  member_name :: string
  is_fraud :: bool

record community_stat =
  total :: nat
  fraud :: nat

type_synonym community_stats = "int \<rightharpoonup> community_stat"

text \<open>
  The body of the \<^verbatim>\<open>forEach\<close> of \<^verbatim>\<open>getCommunityStats\<close>: create the entry
  \<^verbatim>\<open>{ total: 0, fraud: 0 }\<close> when \<^verbatim>\<open>stats[member.community_id]\<close> is missing, then
  \<^verbatim>\<open>total++\<close>, and \<^verbatim>\<open>fraud++\<close> when the row is flagged.
\<close>

definition count_member :: "member_row \<Rightarrow> community_stats \<Rightarrow> community_stats" where
  "count_member member stats =
     (let cid = community_id member;
          s0 = (case stats cid of None \<Rightarrow> \<lparr>total = 0, fraud = 0\<rparr> | Some s \<Rightarrow> s);
          s1 = s0\<lparr>total := total s0 + 1\<rparr>;
          s2 = (if is_fraud member then s1\<lparr>fraud := fraud s1 + 1\<rparr> else s1)
      in stats(cid \<mapsto> s2))"

definition getCommunityStats :: "member_row list \<Rightarrow> community_stats" where
  "getCommunityStats communityMembers = fold count_member communityMembers Map.empty"

text \<open>
  \<^verbatim>\<open>x / y\<close> for two counters: a quotient of reals when \<open>y\<close> is not 0; otherwise NaN for
  \<^verbatim>\<open>0 / 0\<close> and \<^verbatim>\<open>Infinity\<close> for a positive \<open>x\<close>.
\<close>

definition js_div_count :: "nat \<Rightarrow> nat \<Rightarrow> jsnum" where
  "js_div_count x y =
     (if y = 0 then (if x = 0 then NaN else PosInf) else Num (real x / real y))"

text \<open>
  \<^verbatim>\<open>const stats = communityStats[community.community_id];\<close>
  \<^verbatim>\<open>const fraudRatio = stats ? (stats.fraud / stats.total) : 0;\<close>
\<close>

definition fraudRatio :: "community_stats \<Rightarrow> int \<Rightarrow> jsnum" where
  "fraudRatio communityStats cid =
     (case communityStats cid of
        None \<Rightarrow> Num 0
      | Some stats \<Rightarrow> js_div_count (fraud stats) (total stats))"

text \<open>The rows of one community, and those of them flagged as fraud.\<close>

definition members_of :: "int \<Rightarrow> member_row list \<Rightarrow> member_row list" where
  "members_of cid ms = filter (\<lambda>m. community_id m = cid) ms"

definition fraud_members_of :: "int \<Rightarrow> member_row list \<Rightarrow> member_row list" where
  "fraud_members_of cid ms = filter is_fraud (members_of cid ms)"


section \<open>The query parameters of the entity list request\<close>

text \<open>
  The filter state of \<^verbatim>\<open>App.jsx\<close>. The four text fields are strings (the empty string
  is the falsy one); \<^verbatim>\<open>min_risk_score\<close> is a number, \<^verbatim>\<open>parseInt\<close> of the slider's value.
\<close>

record filters =
  sort_by :: string
  filter_status :: string
  min_risk_score :: jsnum
  entity_type :: string
  search :: string

text \<open>\<^verbatim>\<open>x > c\<close> for a finite constant \<open>c\<close>.\<close>

fun js_gt :: "jsnum \<Rightarrow> real \<Rightarrow> bool" where
  "js_gt (Num x) c = (c < x)"
| "js_gt PosInf c = True"
| "js_gt NegInf c = False"
| "js_gt NaN c = False"

text \<open>A value stored in \<^verbatim>\<open>filterParams\<close>: a string or a number.\<close>

datatype param = PStr string | PNum jsnum

text \<open>
  The object \<^verbatim>\<open>filterParams\<close> that \<^verbatim>\<open>loadEntities\<close> builds and hands to
  \<^verbatim>\<open>api.getEntities\<close>, one conditional assignment after the other:
  \<^verbatim>\<open>if (currentFilters.sort_by) ...\<close>,
  \<^verbatim>\<open>if (currentFilters.filter_status && currentFilters.filter_status !== 'all') ...\<close>,
  \<^verbatim>\<open>if (currentFilters.min_risk_score > 0) ...\<close>,
  \<^verbatim>\<open>if (currentFilters.entity_type && currentFilters.entity_type !== 'All Types') ...\<close>.
\<close>

definition filterParams :: "filters \<Rightarrow> (string \<rightharpoonup> param)" where
  "filterParams currentFilters =
     (let p0 = Map.empty;
          p1 = (if sort_by currentFilters \<noteq> ''''
                then p0(''sort_by'' \<mapsto> PStr (sort_by currentFilters)) else p0);
          p2 = (if filter_status currentFilters \<noteq> '''' \<and> filter_status currentFilters \<noteq> ''all''
                then p1(''filter_status'' \<mapsto> PStr (filter_status currentFilters)) else p1);
          p3 = (if js_gt (min_risk_score currentFilters) 0
                then p2(''min_risk_score'' \<mapsto> PNum (min_risk_score currentFilters)) else p2);
          p4 = (if entity_type currentFilters \<noteq> '''' \<and> entity_type currentFilters \<noteq> ''All Types''
                then p3(''entity_type'' \<mapsto> PStr (entity_type currentFilters)) else p3)
      in p4)"

section \<open>The client-side search filter\<close>


text \<open>
  Strings are ASCII text, one \<^typ>\<open>char\<close> per character. \<^verbatim>\<open>toLowerCase\<close> maps the letters
  \<^verbatim>\<open>A\<close> to \<^verbatim>\<open>Z\<close> to \<^verbatim>\<open>a\<close> to \<^verbatim>\<open>z\<close> by setting the bit of value 32, which is
  clear in every upper-case letter's code, and leaves every other character as it is.
\<close>

fun to_lower_char :: "char \<Rightarrow> char" where
  "to_lower_char (Char b0 b1 b2 b3 b4 b5 b6 b7) =
     (if CHR ''A'' \<le> Char b0 b1 b2 b3 b4 b5 b6 b7 \<and> Char b0 b1 b2 b3 b4 b5 b6 b7 \<le> CHR ''Z''
      then Char b0 b1 b2 b3 b4 True b6 b7
      else Char b0 b1 b2 b3 b4 b5 b6 b7)"






section \<open>The ego network of the selected entity\<close>

text \<open>
  A node of the network export. \<open>node_ref\<close> stands for the identity of the JavaScript
  object, \<open>node_id\<close> is its \<^verbatim>\<open>id\<close>, the entity's name.
\<close>

record node =
  node_ref :: nat
  node_id :: string
  communities :: "int list"

text \<open>
  \<^verbatim>\<open>edge.source\<close> and \<^verbatim>\<open>edge.target\<close> hold either the id of a node (as the export
  delivers them) or the node object itself (as the force-graph library leaves them once
  it has resolved the ids); the source handles both forms.
\<close>

datatype endpoint = Ref string | Resolved node

record edge =
  source :: endpoint
  target :: endpoint
  weight :: nat

record networkData =
  nodes :: "node list"
  edges :: "edge list"

text \<open>An element of the JavaScript \<^verbatim>\<open>Set\<close> \<^verbatim>\<open>connectedNodeIds\<close>: a string or an object.\<close>

datatype key = KStr string | KObj node

text \<open>
  \<^verbatim>\<open>edge.x === selectedNodeId || edge.x.id === selectedNodeId\<close>: a string has no
  \<^verbatim>\<open>id\<close>, so for it the second comparison is false.
\<close>

fun names_selected :: "endpoint \<Rightarrow> string \<Rightarrow> bool" where
  "names_selected (Ref s) selectedNodeId = (s = selectedNodeId)"
| "names_selected (Resolved n) selectedNodeId = (node_id n = selectedNodeId)"

text \<open>
  \<^verbatim>\<open>edge.x.id || edge.x\<close>: the id of a node object when that id is truthy (non-empty),
  the node object itself when it is not, and the string itself for a string.
\<close>

fun endpoint_key :: "endpoint \<Rightarrow> key" where
  "endpoint_key (Ref s) = KStr s"
| "endpoint_key (Resolved n) = (if node_id n \<noteq> '''' then KStr (node_id n) else KObj n)"

text \<open>The body of the \<^verbatim>\<open>forEach\<close> over the edges, with its two independent tests.\<close>

definition connect_edge :: "string \<Rightarrow> edge \<Rightarrow> key set \<Rightarrow> key set" where
  "connect_edge selectedNodeId edge connectedIds =
     (let c1 = (if names_selected (source edge) selectedNodeId
                then insert (endpoint_key (target edge)) connectedIds else connectedIds);
          c2 = (if names_selected (target edge) selectedNodeId
                then insert (endpoint_key (source edge)) c1 else c1)
      in c2)"

definition connectedNodeIds :: "networkData \<Rightarrow> string \<Rightarrow> key set" where
  "connectedNodeIds networkData selectedNodeId =
     fold (connect_edge selectedNodeId) (edges networkData) {KStr selectedNodeId}"

text \<open>
  The \<^verbatim>\<open>viewMode === 'ego'\<close> branch of \<^verbatim>\<open>filteredData\<close>, reached when the network data
  and a selected entity are both present: the nodes whose id is in the set, the edges
  whose two keys are in the set, every other field of the data unchanged.
\<close>

definition filteredData_ego :: "networkData \<Rightarrow> string \<Rightarrow> networkData" where
  "filteredData_ego networkData selectedNodeId =
     (let connectedIds = connectedNodeIds networkData selectedNodeId;
          filteredNodes = filter (\<lambda>node. KStr (node_id node) \<in> connectedIds) (nodes networkData);
          filteredEdges = filter (\<lambda>edge. endpoint_key (source edge) \<in> connectedIds
                                        \<and> endpoint_key (target edge) \<in> connectedIds)
                            (edges networkData)
      in networkData\<lparr>nodes := filteredNodes, edges := filteredEdges\<rparr>)"

text \<open>
  The vocabulary of the property. The entity an endpoint stands for; the ids of a node list;
  the ids at the two ends of the edges of a list; the entities that share an edge with
  a given one.
\<close>

fun endpoint_id :: "endpoint \<Rightarrow> string" where
  "endpoint_id (Ref s) = s"
| "endpoint_id (Resolved n) = node_id n"

definition node_ids :: "node list \<Rightarrow> string set" where
  "node_ids ns = set (map node_id ns)"

definition edge_ends :: "edge list \<Rightarrow> string set" where
  "edge_ends es = set (map (\<lambda>e. endpoint_id (source e)) es) \<union> set (map (\<lambda>e. endpoint_id (target e)) es)"

definition neighbours :: "networkData \<Rightarrow> string \<Rightarrow> string set" where
  "neighbours nd x =
     set (map (\<lambda>e. endpoint_id (target e)) (filter (\<lambda>e. endpoint_id (source e) = x) (edges nd)))
     \<union> set (map (\<lambda>e. endpoint_id (source e)) (filter (\<lambda>e. endpoint_id (target e) = x) (edges nd)))"

text \<open>
  A network dataset is a graph: each end of each edge is the non-empty id of a node of
  the dataset.
\<close>

definition is_graph :: "networkData \<Rightarrow> bool" where
  "is_graph nd = (edge_ends (edges nd) \<subseteq> node_ids (nodes nd) \<and> '''' \<notin> edge_ends (edges nd))"

text \<open>
  A small dataset: four entities, the edges A-B and C-D given by ids, B-C given by
  resolved node objects, and A-C by ids.
\<close>

definition ego_example :: networkData where
  "ego_example =
     \<lparr>nodes = [\<lparr>node_ref = 1, node_id = ''A'', communities = [0]\<rparr>,
               \<lparr>node_ref = 2, node_id = ''B'', communities = [0]\<rparr>,
               \<lparr>node_ref = 3, node_id = ''C'', communities = [0, 1]\<rparr>,
               \<lparr>node_ref = 4, node_id = ''D'', communities = [1]\<rparr>],
      edges = [\<lparr>source = Ref ''A'', target = Ref ''B'', weight = 2\<rparr>,
               \<lparr>source = Resolved \<lparr>node_ref = 2, node_id = ''B'', communities = [0]\<rparr>,
                target = Resolved \<lparr>node_ref = 3, node_id = ''C'', communities = [0, 1]\<rparr>,
                weight = 1\<rparr>,
               \<lparr>source = Ref ''C'', target = Ref ''D'', weight = 1\<rparr>,
               \<lparr>source = Ref ''A'', target = Ref ''C'', weight = 1\<rparr>]\<rparr>"

text \<open>
  Two datasets that are not graphs: an edge whose target \<open>B\<close> is no node, and an edge
  whose target is a resolved node object with the empty id.
\<close>

definition dangling_example :: networkData where
  "dangling_example =
     \<lparr>nodes = [\<lparr>node_ref = 1, node_id = ''A'', communities = []\<rparr>],
      edges = [\<lparr>source = Ref ''A'', target = Ref ''B'', weight = 1\<rparr>]\<rparr>"

definition unnamed_example :: networkData where
  "unnamed_example =
     \<lparr>nodes = [\<lparr>node_ref = 1, node_id = ''A'', communities = []\<rparr>,
               \<lparr>node_ref = 2, node_id = '''', communities = []\<rparr>],
      edges = [\<lparr>source = Ref ''A'',
                target = Resolved \<lparr>node_ref = 2, node_id = '''', communities = []\<rparr>,
                weight = 1\<rparr>]\<rparr>"

section \<open>The scoring formulas of the analytics engine\<close>

text \<open>
  The engine itself (\<^verbatim>\<open>data_processor.py\<close>, with its weights in \<^verbatim>\<open>config.py\<close>) is not
  among the sources; only its documentation is. The definitions of this section and of
  the two sections after it follow the specification's wording. Scores are real numbers.
\<close>

text \<open>
  Modelled from the spec: the social-network score of the Centrality Scorer
  (\<^verbatim>\<open>data_processor.py\<close>, absent), section 4.4:
  100 times the weighted sum of degree, betweenness and eigenvector centrality.
\<close>

definition social_network_score :: "real \<Rightarrow> real \<Rightarrow> real \<Rightarrow> real \<Rightarrow> real \<Rightarrow> real \<Rightarrow> real" where
  "social_network_score w_deg w_betw w_eig degree betweenness eigenvector =
     100 * (w_deg * degree + w_betw * betweenness + w_eig * eigenvector)"

text \<open>
  Modelled from the spec: the external score of one claim as the Entity Aggregator
  (\<^verbatim>\<open>data_processor.py\<close>, absent) reads it, section 4.6: a claim with no external score
  contributes 0.
\<close>

definition claim_external_score :: "('c \<rightharpoonup> real) \<Rightarrow> 'c \<Rightarrow> real" where
  "claim_external_score external_scores c =
     (case external_scores c of None \<Rightarrow> 0 | Some s \<Rightarrow> s)"

text \<open>
  Modelled from the spec: the average used by the Entity Aggregator
  (\<^verbatim>\<open>data_processor.py\<close>, absent). The specification gives no value for the average of
  no scores; it is taken as 0 here, and the product below is 0 for an entity without
  claims whatever that value is, since its other factor is \<open>ln 1\<close>.
\<close>

definition average :: "real list \<Rightarrow> real" where
  "average xs = (if xs = [] then 0 else sum_list xs / real (length xs))"

text \<open>
  Modelled from the spec: the external composite score of the Entity Aggregator
  (\<^verbatim>\<open>data_processor.py\<close>, absent), section 4.6: the average of the external scores of
  the entity's associated claims times the natural logarithm of one plus their count.
\<close>

definition external_composite :: "('c \<rightharpoonup> real) \<Rightarrow> 'c list \<Rightarrow> real" where
  "external_composite external_scores associated_claims =
     average (map (claim_external_score external_scores) associated_claims)
       * ln (1 + real (length associated_claims))"

text \<open>
  Modelled from the spec: the ensemble score of the Entity Aggregator
  (\<^verbatim>\<open>data_processor.py\<close>, absent), section 4.6:
  100 times (w_social times social-network score over 100, plus w_ext times the smaller of
  the external composite and 1), with no clamp on the result.
\<close>

definition ensemble_risk_score :: "real \<Rightarrow> real \<Rightarrow> real \<Rightarrow> real \<Rightarrow> real" where
  "ensemble_risk_score w_social w_ext social external =
     100 * (w_social * (social / 100) + w_ext * min external 1)"

text \<open>
  The default weights, as the backend's README quotes them from \<^verbatim>\<open>config.py\<close>:
  \<^verbatim>\<open>SOCIAL_NETWORK_WEIGHT = 0.6\<close>, \<^verbatim>\<open>EXTERNAL_FRAUD_WEIGHT = 0.4\<close>; and the centrality
  weights 0.4, 0.3, 0.3 of the documented social-network formula.
\<close>

definition SOCIAL_NETWORK_WEIGHT :: real where
  "SOCIAL_NETWORK_WEIGHT = 0.6"

definition EXTERNAL_FRAUD_WEIGHT :: real where
  "EXTERNAL_FRAUD_WEIGHT = 0.4"

definition default_social_network_score :: "real \<Rightarrow> real \<Rightarrow> real \<Rightarrow> real" where
  "default_social_network_score = social_network_score 0.4 0.3 0.3"

definition default_ensemble_score :: "real \<Rightarrow> real \<Rightarrow> real" where
  "default_ensemble_score = ensemble_risk_score SOCIAL_NETWORK_WEIGHT EXTERNAL_FRAUD_WEIGHT"

text \<open>
  The formula as the project notes print it, without the cap on the external score:
  \<^verbatim>\<open>ensemble_score = (0.6 * social_network_score) + (0.4 * external_fraud_score * 100)\<close>.
\<close>

definition documented_ensemble_score :: "real \<Rightarrow> real \<Rightarrow> real" where
  "documented_ensemble_score social external = (0.6 * social) + (0.4 * external * 100)"

section \<open>Connection records of the co-occurrence graph\<close>

text \<open>
  Modelled from the spec: the Connection record that the Co-occurrence Graph Builder of
  \<^verbatim>\<open>data_processor.py\<close> (absent) emits, section 3: source and target entity, the
  connection strength and the shared claim numbers. Entities are named by strings, ordered
  lexicographically. The external-score statistics and the fraud flag of a Connection
  play no part in how records are keyed and are left out.
\<close>

record connection =
  source_entity :: string
  target_entity :: string
  connection_strength :: nat
  shared_claim_numbers :: "string list"

text \<open>
  Modelled from the spec: a claim as the Graph Builder of \<^verbatim>\<open>data_processor.py\<close> (absent)
  receives it, section 4.2: its number and the entities present on it (the extracted
  mentions united with the associated entities), possibly with repetitions.
\<close>

record claim =
  claim_number :: string
  claim_entities :: "string list"

text \<open>
  Modelled from the spec: the unordered pairs of distinct entities present on one claim,
  as the Graph Builder of \<^verbatim>\<open>data_processor.py\<close> (absent) enumerates them, sections 3
  and 4.2: each entity counts once, and a pair is written with its lexicographically
  smaller entity first.
\<close>

definition entity_pairs :: "string list \<Rightarrow> (string \<times> string) list" where
  "entity_pairs ents = [(a, b). a \<leftarrow> remdups ents, b \<leftarrow> remdups ents, a < b]"

text \<open>
  Modelled from the spec: one co-occurrence recorded by the Graph Builder of
  \<^verbatim>\<open>data_processor.py\<close> (absent), section 4.2: increment the weight of the pair's edge and
  append the claim number to its shared-claim list, creating the record when the pair has
  none yet.
\<close>

fun add_cooccurrence :: "string \<Rightarrow> string \<times> string \<Rightarrow> connection list \<Rightarrow> connection list" where
  "add_cooccurrence cn (a, b) [] =
     [\<lparr>source_entity = a, target_entity = b, connection_strength = 1, shared_claim_numbers = [cn]\<rparr>]"
| "add_cooccurrence cn (a, b) (c # cs) =
     (if source_entity c = a \<and> target_entity c = b
      then c\<lparr>connection_strength := connection_strength c + 1,
             shared_claim_numbers := shared_claim_numbers c @ [cn]\<rparr> # cs
      else c # add_cooccurrence cn (a, b) cs)"

text \<open>
  Modelled from the spec: the Graph Builder of \<^verbatim>\<open>data_processor.py\<close> (absent), section
  4.2: for every claim, for every unordered pair of distinct entities on it, one
  co-occurrence; the records after the last claim are the pipeline's Connection table.
\<close>

definition add_claim :: "claim \<Rightarrow> connection list \<Rightarrow> connection list" where
  "add_claim cl conns =
     fold (add_cooccurrence (claim_number cl)) (entity_pairs (claim_entities cl)) conns"

definition build_connections :: "claim list \<Rightarrow> connection list" where
  "build_connections claims = fold add_claim claims []"

text \<open>The ordered pair a record is stored under, and the records that join two given entities.\<close>

definition pair_of :: "connection \<Rightarrow> string \<times> string" where
  "pair_of c = (source_entity c, target_entity c)"

definition records_joining :: "string \<Rightarrow> string \<Rightarrow> connection list \<Rightarrow> connection list" where
  "records_joining a b conns = filter (\<lambda>c. {source_entity c, target_entity c} = {a, b}) conns"

text \<open>The two claims of the specification's scenario.\<close>

definition scenario_claims :: "claim list" where
  "scenario_claims =
     [\<lparr>claim_number = ''WC-2024-001'', claim_entities = [''Dr. A'', ''Lawyer B'']\<rparr>,
      \<lparr>claim_number = ''WC-2024-002'', claim_entities = [''Dr. A'', ''Lawyer B'', ''Business C'']\<rparr>]"

section \<open>Loading the external signals\<close>

text \<open>
  Modelled from the spec: the failures a pipeline stage of \<^verbatim>\<open>data_processor.py\<close> (absent)
  can report, section 7.
\<close>

datatype pipeline_error =
  InputDataError | ExternalSourceMissing | AlgorithmNonConvergence | EntityNotFound
  | ConcurrentRunConflict

text \<open>
  Modelled from the spec: the external score source as the External Signal Loader of
  \<^verbatim>\<open>data_processor.py\<close> (absent) finds it, sections 4.5 and 6: absent, unreadable, or
  read as rows of claim number and score, a malformed row being \<open>None\<close>.
\<close>

datatype external_source = Absent | Unreadable | Rows "(string \<times> real) option list"

text \<open>
  Modelled from the spec: the score table the External Signal Loader of
  \<^verbatim>\<open>data_processor.py\<close> (absent) returns, section 4.5, with the flag that marks a run on
  simulated data.
\<close>

record score_table =
  external_scores :: "string \<rightharpoonup> real"
  simulated :: bool

text \<open>
  Modelled from the spec: reading the rows of a present source in the External Signal
  Loader of \<^verbatim>\<open>data_processor.py\<close> (absent), section 4.5: a malformed row is skipped, the
  run goes on.
\<close>

definition load_rows :: "(string \<times> real) option list \<Rightarrow> (string \<rightharpoonup> real)" where
  "load_rows rows =
     fold (\<lambda>row tbl. case row of None \<Rightarrow> tbl | Some (cn, s) \<Rightarrow> tbl(cn \<mapsto> s)) rows Map.empty"

text \<open>
  Modelled from the spec: the simulated scores of the External Signal Loader of
  \<^verbatim>\<open>data_processor.py\<close> (absent), section 4.5: one generated value for each claim of the
  corpus. The generator \<open>draw\<close> is a parameter; the specification bounds its values by
  0 and 1 and fixes nothing else about them.
\<close>

definition simulate_scores :: "(string \<Rightarrow> real) \<Rightarrow> string list \<Rightarrow> (string \<rightharpoonup> real)" where
  "simulate_scores draw claim_numbers =
     (\<lambda>cn. if cn \<in> set claim_numbers then Some (draw cn) else None)"

text \<open>
  Modelled from the spec: the External Signal Loader of \<^verbatim>\<open>data_processor.py\<close> (absent),
  section 4.5: the scores of the source when it can be read; simulated scores and the flag
  when it is absent or unreadable, which is not a failure of the run.
\<close>

definition load_external_scores ::
  "external_source \<Rightarrow> (string \<Rightarrow> real) \<Rightarrow> string list \<Rightarrow> pipeline_error + score_table" where
  "load_external_scores src draw claim_numbers =
     (case src of
        Rows rows \<Rightarrow> Inr \<lparr>external_scores = load_rows rows, simulated = False\<rparr>
      | Absent \<Rightarrow> Inr \<lparr>external_scores = simulate_scores draw claim_numbers, simulated = True\<rparr>
      | Unreadable \<Rightarrow> Inr \<lparr>external_scores = simulate_scores draw claim_numbers, simulated = True\<rparr>)"

text \<open>
  Modelled from the spec: the part of the Entity Aggregator's output (\<^verbatim>\<open>data_processor.py\<close>,
  absent) that depends on the external signals, sections 4.5 and 4.6: the external
  composite score of each entity, and the simulated-data flag of the run.
\<close>

record aggregator_output =
  composite_scores :: "(string \<times> real) list"
  used_simulated_data :: bool

definition aggregate_external :: "score_table \<Rightarrow> (string \<times> string list) list \<Rightarrow> aggregator_output" where
  "aggregate_external tbl entity_claims =
     \<lparr>composite_scores =
        map (\<lambda>(e, cs). (e, external_composite (external_scores tbl) cs)) entity_claims,
      used_simulated_data = simulated tbl\<rparr>"

definition run_external ::
  "external_source \<Rightarrow> (string \<Rightarrow> real) \<Rightarrow> string list \<Rightarrow> (string \<times> string list) list
     \<Rightarrow> pipeline_error + aggregator_output" where
  "run_external src draw claim_numbers entity_claims =
     (case load_external_scores src draw claim_numbers of
        Inl err \<Rightarrow> Inl err
      | Inr tbl \<Rightarrow> Inr (aggregate_external tbl entity_claims))"

section \<open>Theorems\<close>

subsection \<open>Risk colour\<close>

text \<open>
  C10. The three copies of \<^verbatim>\<open>getRiskColor\<close> return the same class for every score, and
  that class is the one the specification names: \<^verbatim>\<open>risk-high\<close> exactly when the score is
  at least 85, \<^verbatim>\<open>risk-medium\<close> exactly when it is at least 70 and below 85,
  \<^verbatim>\<open>risk-low\<close> exactly in the remaining case; the three classes are distinct strings, so
  every score has exactly one.
\<close>

theorem getRiskColor_copies_agree:
  "getRiskColor_EntityList s = getRiskColor_EntityDetail s
   \<and> getRiskColor_EntityDetail s = getRiskColor_ClaimsTable s
   \<and> getRiskColor_ClaimsTable s = risk_class_spec s
   \<and> (getRiskColor_EntityList s = ''risk-high'') = js_ge s 85
   \<and> (getRiskColor_EntityList s = ''risk-medium'') = (js_ge s 70 \<and> js_lt s 85)
   \<and> (getRiskColor_EntityList s = ''risk-low'') = (\<not> js_ge s 85 \<and> \<not> (js_ge s 70 \<and> js_lt s 85))
   \<and> getRiskColor_EntityList s \<in> {''risk-high'', ''risk-medium'', ''risk-low''}"
  by (cases s)
    (auto simp: getRiskColor_EntityList_def getRiskColor_EntityDetail_def
       getRiskColor_ClaimsTable_def risk_class_spec_def)

theorem getRiskColor_copies_agree_witness:
  "getRiskColor_EntityList (Num 85) = ''risk-high''
   \<and> getRiskColor_EntityDetail (Num 85) = ''risk-high''
   \<and> getRiskColor_ClaimsTable (Num 85) = ''risk-high''
   \<and> getRiskColor_ClaimsTable (Num 84.9) = ''risk-medium''
   \<and> getRiskColor_EntityDetail (Num 70) = ''risk-medium''
   \<and> getRiskColor_EntityList (Num 69.9) = ''risk-low''
   \<and> getRiskColor_EntityList NaN = ''risk-low''"
  using getRiskColor_copies_agree [of "Num 85"] getRiskColor_copies_agree [of "Num 84.9"]
    getRiskColor_copies_agree [of "Num 70"] getRiskColor_copies_agree [of "Num 69.9"]
    getRiskColor_copies_agree [of NaN]
  by (simp add: risk_class_spec_def)

subsection \<open>Community fraud ratio\<close>

lemma fold_count_member:
  "fold count_member ms st cid =
     (if members_of cid ms = [] then st cid
      else Some \<lparr>total = (case st cid of None \<Rightarrow> 0 | Some s \<Rightarrow> total s) + length (members_of cid ms),
                 fraud = (case st cid of None \<Rightarrow> 0 | Some s \<Rightarrow> fraud s)
                           + length (fraud_members_of cid ms)\<rparr>)"
proof (induction ms arbitrary: st)
  case Nil
  show ?case by (simp add: members_of_def)
next
  case (Cons m ms)
  show ?case
    by (simp add: Cons.IH)
      (auto simp: count_member_def members_of_def fraud_members_of_def Let_def
         split: option.splits)
qed

lemma getCommunityStats_lookup:
  "getCommunityStats ms cid =
     (if members_of cid ms = [] then None
      else Some \<lparr>total = length (members_of cid ms), fraud = length (fraud_members_of cid ms)\<rparr>)"
  by (simp add: getCommunityStats_def fold_count_member)

text \<open>
  C3. For every community id and every list of member rows, the ratio shown for the
  community is the number of its rows flagged as fraud divided by the number of its rows,
  and it is 0 when the list holds no row of the community; it is a finite number in
  either case, never NaN.
\<close>

theorem fraudRatio_is_flagged_over_total:
  "fraudRatio (getCommunityStats ms) cid =
     Num (if members_of cid ms = [] then 0
          else real (length (fraud_members_of cid ms)) / real (length (members_of cid ms)))"
  by (simp add: fraudRatio_def js_div_count_def getCommunityStats_lookup)

theorem fraudRatio_is_flagged_over_total_witness:
  "fraudRatio (getCommunityStats
      [\<lparr>community_id = 1, member_name = ''Dr. A'', is_fraud = True\<rparr>,
       \<lparr>community_id = 2, member_name = ''Dr. A'', is_fraud = True\<rparr>,
       \<lparr>community_id = 1, member_name = ''Lawyer B'', is_fraud = False\<rparr>,
       \<lparr>community_id = 1, member_name = ''Business C'', is_fraud = False\<rparr>]) 1 = Num (1 / 3)
   \<and> fraudRatio (getCommunityStats
      [\<lparr>community_id = 1, member_name = ''Dr. A'', is_fraud = True\<rparr>]) 7 = Num 0"
  using fraudRatio_is_flagged_over_total
      [of "[\<lparr>community_id = 1, member_name = ''Dr. A'', is_fraud = True\<rparr>,
            \<lparr>community_id = 2, member_name = ''Dr. A'', is_fraud = True\<rparr>,
            \<lparr>community_id = 1, member_name = ''Lawyer B'', is_fraud = False\<rparr>,
            \<lparr>community_id = 1, member_name = ''Business C'', is_fraud = False\<rparr>]" 1]
    fraudRatio_is_flagged_over_total
      [of "[\<lparr>community_id = 1, member_name = ''Dr. A'', is_fraud = True\<rparr>]" 7]
  by (simp add: members_of_def fraud_members_of_def)

subsection \<open>Query parameters\<close>

text \<open>
  C7, as the code has it. For every filter state the parameter map holds
  \<^verbatim>\<open>sort_by\<close> exactly when it is set (non-empty), \<^verbatim>\<open>filter_status\<close> exactly when the
  status is set and is not \<^verbatim>\<open>all\<close>, \<^verbatim>\<open>min_risk_score\<close> exactly when the minimum score is
  greater than 0, and \<^verbatim>\<open>entity_type\<close> exactly when the type is set and is not
  \<^verbatim>\<open>All Types\<close>; each parameter present carries the filter's own value, and no other key
  (the search text among them) is sent.
\<close>

theorem filterParams_keys:
  "filterParams f ''sort_by'' = (if sort_by f \<noteq> '''' then Some (PStr (sort_by f)) else None)
   \<and> filterParams f ''filter_status'' =
       (if filter_status f \<noteq> '''' \<and> filter_status f \<noteq> ''all''
        then Some (PStr (filter_status f)) else None)
   \<and> filterParams f ''min_risk_score'' =
       (if js_gt (min_risk_score f) 0 then Some (PNum (min_risk_score f)) else None)
   \<and> filterParams f ''entity_type'' =
       (if entity_type f \<noteq> '''' \<and> entity_type f \<noteq> ''All Types''
        then Some (PStr (entity_type f)) else None)
   \<and> dom (filterParams f) \<subseteq> {''sort_by'', ''filter_status'', ''min_risk_score'', ''entity_type''}"
  by (auto simp: filterParams_def Let_def split: if_splits)

theorem filterParams_keys_witness:
  "filterParams \<lparr>sort_by = ''total_exposure'', filter_status = ''Bad Actor'',
       min_risk_score = Num 70, entity_type = ''All Types'', search = ''dr''\<rparr> ''sort_by''
     = Some (PStr ''total_exposure'')
   \<and> filterParams \<lparr>sort_by = ''total_exposure'', filter_status = ''Bad Actor'',
       min_risk_score = Num 70, entity_type = ''All Types'', search = ''dr''\<rparr> ''filter_status''
     = Some (PStr ''Bad Actor'')
   \<and> filterParams \<lparr>sort_by = ''total_exposure'', filter_status = ''Bad Actor'',
       min_risk_score = Num 70, entity_type = ''All Types'', search = ''dr''\<rparr> ''min_risk_score''
     = Some (PNum (Num 70))
   \<and> filterParams \<lparr>sort_by = ''total_exposure'', filter_status = ''Bad Actor'',
       min_risk_score = Num 70, entity_type = ''All Types'', search = ''dr''\<rparr> ''entity_type''
     = None
   \<and> filterParams \<lparr>sort_by = ''total_exposure'', filter_status = ''Bad Actor'',
       min_risk_score = Num 70, entity_type = ''All Types'', search = ''dr''\<rparr> ''search''
     = None"
  using filterParams_keys [of "\<lparr>sort_by = ''total_exposure'', filter_status = ''Bad Actor'',
       min_risk_score = Num 70, entity_type = ''All Types'', search = ''dr''\<rparr>"]
  by (auto simp: dom_def)

text \<open>
  The claim as worded (\<^verbatim>\<open>filter_status\<close> present exactly when the status is not
  \<^verbatim>\<open>all\<close>, \<^verbatim>\<open>entity_type\<close> present exactly when the type is not \<^verbatim>\<open>All Types\<close>) fails at
  the filter state whose status and type are empty: the truthiness guards leave both out.
\<close>

theorem filterParams_unset_counterexample:
  "\<not> ((''filter_status'' \<in> dom (filterParams
          \<lparr>sort_by = ''ensemble_score'', filter_status = '''', min_risk_score = Num 0,
           entity_type = '''', search = ''''\<rparr>))
        = (filter_status
          \<lparr>sort_by = ''ensemble_score'', filter_status = '''', min_risk_score = Num 0,
           entity_type = '''', search = ''''\<rparr> \<noteq> ''all''))
   \<and> \<not> ((''entity_type'' \<in> dom (filterParams
          \<lparr>sort_by = ''ensemble_score'', filter_status = '''', min_risk_score = Num 0,
           entity_type = '''', search = ''''\<rparr>))
        = (entity_type
          \<lparr>sort_by = ''ensemble_score'', filter_status = '''', min_risk_score = Num 0,
           entity_type = '''', search = ''''\<rparr> \<noteq> ''All Types''))"
  by (simp add: filterParams_def Let_def dom_def)

subsection \<open>Search filter\<close>

lemma to_lower_char_code:
  "(of_char (to_lower_char c) :: nat) =
     (if 65 \<le> (of_char c :: nat) \<and> (of_char c :: nat) \<le> 90 then of_char c + 32 else of_char c)"
  by (cases c) (auto simp: less_eq_char_def)





subsection \<open>Ego network\<close>

lemma names_selected_iff: "names_selected ep x = (endpoint_id ep = x)"
  by (cases ep) simp_all

lemma endpoint_key_named: "endpoint_id ep \<noteq> '''' \<Longrightarrow> endpoint_key ep = KStr (endpoint_id ep)"
  by (cases ep) simp_all

lemma fold_connect_edge:
  "fold (connect_edge x) es C =
     C \<union> (\<lambda>e. endpoint_key (target e)) ` {e \<in> set es. endpoint_id (source e) = x}
       \<union> (\<lambda>e. endpoint_key (source e)) ` {e \<in> set es. endpoint_id (target e) = x}"
  by (induction es arbitrary: C) (auto simp: connect_edge_def Let_def names_selected_iff)

lemma connectedNodeIds_graph:
  assumes "is_graph nd"
  shows "connectedNodeIds nd x = KStr ` insert x (neighbours nd x)"
proof -
  have named: "endpoint_key (source e) = KStr (endpoint_id (source e))
             \<and> endpoint_key (target e) = KStr (endpoint_id (target e))"
    if "e \<in> set (edges nd)" for e
  proof -
    from that have "endpoint_id (source e) \<in> edge_ends (edges nd)"
      and "endpoint_id (target e) \<in> edge_ends (edges nd)"
      by (auto simp: edge_ends_def)
    with assms have "endpoint_id (source e) \<noteq> ''''" and "endpoint_id (target e) \<noteq> ''''"
      by (auto simp: is_graph_def)
    then show ?thesis by (simp add: endpoint_key_named)
  qed
  show ?thesis
    unfolding connectedNodeIds_def fold_connect_edge neighbours_def
    using named by (auto simp: image_iff)
qed

lemma neighbours_are_ends: "neighbours nd x \<subseteq> edge_ends (edges nd)"
  by (auto simp: neighbours_def edge_ends_def)

text \<open>
  C9. For every network dataset that is a graph and every selected entity among its nodes,
  the node ids of the ego-mode result are the selected entity together with exactly the
  entities that share an edge with it, and both ends of every edge the filter keeps are
  among the nodes it keeps.
\<close>

theorem filteredData_ego_edge_closed:
  assumes "is_graph nd" and "x \<in> node_ids (nodes nd)"
  shows "node_ids (nodes (filteredData_ego nd x)) = insert x (neighbours nd x)
       \<and> edge_ends (edges (filteredData_ego nd x)) \<subseteq> node_ids (nodes (filteredData_ego nd x))"
proof -
  let ?N = "insert x (neighbours nd x)"
  have conn: "connectedNodeIds nd x = KStr ` ?N"
    using assms(1) by (rule connectedNodeIds_graph)
  have sub: "?N \<subseteq> node_ids (nodes nd)"
    using assms neighbours_are_ends [of nd x] by (auto simp: is_graph_def)
  have kept_nodes: "node_ids (nodes (filteredData_ego nd x)) = ?N"
  proof -
    have "node_ids (nodes (filteredData_ego nd x)) = node_ids (nodes nd) \<inter> ?N"
      by (auto simp: filteredData_ego_def Let_def conn node_ids_def)
    with sub show ?thesis by blast
  qed
  have kept_edges: "edge_ends (edges (filteredData_ego nd x)) \<subseteq> ?N"
  proof
    fix y
    assume "y \<in> edge_ends (edges (filteredData_ego nd x))"
    then obtain e where e: "e \<in> set (edges nd)"
      and ks: "endpoint_key (source e) \<in> KStr ` ?N"
      and kt: "endpoint_key (target e) \<in> KStr ` ?N"
      and y: "y = endpoint_id (source e) \<or> y = endpoint_id (target e)"
      by (auto simp: filteredData_ego_def Let_def conn edge_ends_def)
    from e have "endpoint_id (source e) \<in> edge_ends (edges nd)"
      and "endpoint_id (target e) \<in> edge_ends (edges nd)"
      by (auto simp: edge_ends_def)
    with assms(1) have "endpoint_id (source e) \<noteq> ''''" and "endpoint_id (target e) \<noteq> ''''"
      by (auto simp: is_graph_def)
    then have "endpoint_key (source e) = KStr (endpoint_id (source e))"
      and "endpoint_key (target e) = KStr (endpoint_id (target e))"
      by (simp_all add: endpoint_key_named)
    with ks kt have "endpoint_id (source e) \<in> ?N" and "endpoint_id (target e) \<in> ?N"
      by auto
    with y show "y \<in> ?N" by blast
  qed
  from kept_nodes kept_edges show ?thesis by simp
qed

theorem filteredData_ego_edge_closed_witness:
  "is_graph ego_example
   \<and> ''B'' \<in> node_ids (nodes ego_example)
   \<and> node_ids (nodes (filteredData_ego ego_example ''B'')) = {''A'', ''B'', ''C''}
   \<and> edge_ends (edges (filteredData_ego ego_example ''B''))
       \<subseteq> node_ids (nodes (filteredData_ego ego_example ''B''))
   \<and> map node_id (nodes (filteredData_ego ego_example ''B'')) = [''A'', ''B'', ''C'']
   \<and> length (edges (filteredData_ego ego_example ''B'')) = 3"
proof -
  have g: "is_graph ego_example"
    by (simp add: is_graph_def ego_example_def edge_ends_def node_ids_def)
  have m: "''B'' \<in> node_ids (nodes ego_example)"
    by (simp add: ego_example_def node_ids_def)
  have n: "neighbours ego_example ''B'' = {''A'', ''C''}"
    by (auto simp: neighbours_def ego_example_def)
  have c: "connectedNodeIds ego_example ''B'' = {KStr ''B'', KStr ''A'', KStr ''C''}"
    by (simp add: connectedNodeIds_def connect_edge_def ego_example_def Let_def insert_commute)
  have r: "map node_id (nodes (filteredData_ego ego_example ''B'')) = [''A'', ''B'', ''C'']
           \<and> length (edges (filteredData_ego ego_example ''B'')) = 3"
    by (simp add: filteredData_ego_def Let_def c) (simp add: ego_example_def)
  show ?thesis
    using filteredData_ego_edge_closed [OF g m] g m n r by auto
qed

text \<open>
  Without the two conditions the claim fails. A selected entity that is not a node of the
  dataset is not among the kept nodes; an edge from the selected entity to an id that
  names no node is kept while that end is not a kept node; and so is an edge to a resolved
  node whose id is empty, because the key of that end is then the object and not its id.
\<close>

theorem filteredData_ego_counterexample:
  "''Z'' \<notin> node_ids (nodes (filteredData_ego ego_example ''Z''))
   \<and> node_ids (nodes (filteredData_ego ego_example ''Z'')) \<noteq> insert ''Z'' (neighbours ego_example ''Z'')
   \<and> \<not> edge_ends (edges (filteredData_ego dangling_example ''A''))
         \<subseteq> node_ids (nodes (filteredData_ego dangling_example ''A''))
   \<and> \<not> edge_ends (edges (filteredData_ego unnamed_example ''A''))
         \<subseteq> node_ids (nodes (filteredData_ego unnamed_example ''A''))"
proof -
  have z: "connectedNodeIds ego_example ''Z'' = {KStr ''Z''}"
    by (simp add: connectedNodeIds_def connect_edge_def ego_example_def Let_def)
  have "nodes (filteredData_ego ego_example ''Z'') = []"
    by (simp add: filteredData_ego_def Let_def z) (simp add: ego_example_def)
  then have one: "''Z'' \<notin> node_ids (nodes (filteredData_ego ego_example ''Z''))
      \<and> node_ids (nodes (filteredData_ego ego_example ''Z''))
          \<noteq> insert ''Z'' (neighbours ego_example ''Z'')"
    by (simp add: node_ids_def)
  have d: "connectedNodeIds dangling_example ''A'' = {KStr ''B'', KStr ''A''}"
    by (simp add: connectedNodeIds_def connect_edge_def dangling_example_def Let_def)
  have two: "\<not> edge_ends (edges (filteredData_ego dangling_example ''A''))
         \<subseteq> node_ids (nodes (filteredData_ego dangling_example ''A''))"
    by (simp add: filteredData_ego_def Let_def d)
      (simp add: dangling_example_def edge_ends_def node_ids_def)
  have u: "connectedNodeIds unnamed_example ''A''
      = {KObj \<lparr>node_ref = 2, node_id = '''', communities = []\<rparr>, KStr ''A''}"
    by (simp add: connectedNodeIds_def connect_edge_def unnamed_example_def Let_def)
  have three: "\<not> edge_ends (edges (filteredData_ego unnamed_example ''A''))
         \<subseteq> node_ids (nodes (filteredData_ego unnamed_example ''A''))"
    by (simp add: filteredData_ego_def Let_def u)
      (simp add: unnamed_example_def edge_ends_def node_ids_def)
  from one two three show ?thesis by blast
qed

subsection \<open>Ensemble score\<close>

lemma documented_ensemble_score_capped:
  "default_ensemble_score s e = documented_ensemble_score s (min e 1)"
  by (simp add: default_ensemble_score_def ensemble_risk_score_def documented_ensemble_score_def
      SOCIAL_NETWORK_WEIGHT_def EXTERNAL_FRAUD_WEIGHT_def)

text \<open>
  C1. The ensemble score of an entity is 100 times (w_social times its social-network score
  over 100, plus w_ext times the smaller of its external composite and 1); under the default
  weights 0.6 and 0.4 that is 0.6 times the social score plus 40 times the capped external
  composite. An entity with zero centralities and no external signal (no scored claim,
  or no claim at all) scores exactly 0, and one with social-network score 100 and external
  composite 1 scores exactly 100.
\<close>

theorem ensemble_score_formula:
  "ensemble_risk_score w_social w_ext s e = 100 * (w_social * (s / 100) + w_ext * min e 1)
   \<and> default_ensemble_score s e = 0.6 * s + 40 * min e 1
   \<and> default_ensemble_score (default_social_network_score 0 0 0) 0 = 0
   \<and> default_ensemble_score (default_social_network_score 0 0 0)
        (external_composite Map.empty cs) = 0
   \<and> default_ensemble_score 100 1 = 100"
proof -
  have "sum_list (map (claim_external_score Map.empty) cs) = 0"
    by (induction cs) (simp_all add: claim_external_score_def)
  then have zero: "external_composite Map.empty cs = 0"
    by (simp add: external_composite_def average_def)
  show ?thesis
    by (simp add: zero default_ensemble_score_def ensemble_risk_score_def
        default_social_network_score_def social_network_score_def
        SOCIAL_NETWORK_WEIGHT_def EXTERNAL_FRAUD_WEIGHT_def)
qed

theorem ensemble_score_formula_witness:
  "default_ensemble_score 50 (1 / 2) = 50
   \<and> default_ensemble_score 50 3 = 70
   \<and> ensemble_risk_score (1 / 2) (1 / 2) 80 (1 / 5) = 50
   \<and> default_ensemble_score (default_social_network_score 0 0 0)
        (external_composite Map.empty [''WC-2024-001'']) = 0"
  using ensemble_score_formula [of "6 / 10" "4 / 10" 50 "1 / 2" "[]"]
    ensemble_score_formula [of "6 / 10" "4 / 10" 50 3 "[''WC-2024-001'']"]
    ensemble_score_formula [of "1 / 2" "1 / 2" 80 "1 / 5" "[]"]
  by (simp add: default_ensemble_score_def ensemble_risk_score_def
      SOCIAL_NETWORK_WEIGHT_def EXTERNAL_FRAUD_WEIGHT_def)

subsection \<open>External composite score\<close>

text \<open>
  C2. The external composite score of an entity is the average of the external scores of
  its associated claims times ln(1 + their number), where a claim without an external
  score counts in the average with the value 0: it adds nothing to the sum and one to the
  divisor and to the count. An entity with no associated claim has external composite 0.
\<close>

theorem external_composite_formula:
  "external_composite tbl cs =
     (if cs = [] then 0
      else (sum_list (map (\<lambda>c. case tbl c of None \<Rightarrow> 0 | Some s \<Rightarrow> s) cs) / real (length cs))
             * ln (1 + real (length cs)))
   \<and> external_composite tbl [] = 0
   \<and> external_composite (tbl(c := None)) (c # cs) =
       (sum_list (map (claim_external_score (tbl(c := None))) cs) / (1 + real (length cs)))
         * ln (2 + real (length cs))"
proof -
  have same: "map (claim_external_score tbl) cs = map (\<lambda>c. case tbl c of None \<Rightarrow> 0 | Some s \<Rightarrow> s) cs"
    by (simp add: claim_external_score_def)
  have first: "external_composite tbl cs =
     (if cs = [] then 0
      else (sum_list (map (\<lambda>c. case tbl c of None \<Rightarrow> 0 | Some s \<Rightarrow> s) cs) / real (length cs))
             * ln (1 + real (length cs)))"
    by (simp add: external_composite_def average_def same)
  have second: "external_composite tbl [] = 0"
    by (simp add: external_composite_def average_def)
  have "claim_external_score (tbl(c := None)) c = 0"
    by (simp add: claim_external_score_def)
  then have third: "external_composite (tbl(c := None)) (c # cs) =
       (sum_list (map (claim_external_score (tbl(c := None))) cs) / (1 + real (length cs)))
         * ln (2 + real (length cs))"
    by (simp add: external_composite_def average_def add.commute)
  from first second third show ?thesis by blast
qed

theorem external_composite_formula_witness:
  "external_composite [''WC-2024-001'' \<mapsto> 0.75, ''WC-2024-002'' \<mapsto> 0.89]
      [''WC-2024-001'', ''WC-2024-002'', ''WC-2024-003''] = (164 / 300) * ln 4
   \<and> external_composite [''WC-2024-001'' \<mapsto> 0.75] ([] :: string list) = 0"
  using external_composite_formula
      [of "[''WC-2024-001'' \<mapsto> 0.75, ''WC-2024-002'' \<mapsto> 0.89]"
          "[''WC-2024-001'', ''WC-2024-002'', ''WC-2024-003'']" "''WC-2024-003''"]
    external_composite_formula [of "[''WC-2024-001'' \<mapsto> 0.75]" "[] :: string list" "''WC-2024-003''"]
  by simp

subsection \<open>Connection records\<close>

lemma entity_pairs_ordered: "(a, b) \<in> set (entity_pairs ents) \<Longrightarrow> a < b"
  by (auto simp: entity_pairs_def)

lemma pairs_add_cooccurrence:
  "pair_of ` set (add_cooccurrence cn (a, b) cs) = insert (a, b) (pair_of ` set cs)"
  by (induction cs) (auto simp: pair_of_def)

lemma distinct_add_cooccurrence:
  "distinct (map pair_of cs) \<Longrightarrow> distinct (map pair_of (add_cooccurrence cn (a, b) cs))"
proof (induction cs)
  case Nil
  show ?case by simp
next
  case (Cons c cs)
  show ?case
  proof (cases "source_entity c = a \<and> target_entity c = b")
    case True
    with Cons.prems show ?thesis by (simp add: pair_of_def)
  next
    case False
    then have "pair_of c \<noteq> (a, b)" by (auto simp: pair_of_def)
    moreover from Cons.prems have "pair_of c \<notin> pair_of ` set cs" by simp
    ultimately have "pair_of c \<notin> pair_of ` set (add_cooccurrence cn (a, b) cs)"
      by (simp add: pairs_add_cooccurrence)
    with False Cons show ?thesis by auto
  qed
qed

lemma ordered_add_cooccurrence:
  "\<forall>c\<in>set cs. source_entity c < target_entity c \<Longrightarrow> a < b
   \<Longrightarrow> \<forall>c\<in>set (add_cooccurrence cn (a, b) cs). source_entity c < target_entity c"
  by (induction cs) auto

text \<open>The invariant of the table: records keyed apart, each with its smaller entity first.\<close>

lemma canonical_add_cooccurrence:
  assumes "distinct (map pair_of cs)" and "\<forall>c\<in>set cs. source_entity c < target_entity c"
    and "a < b"
  shows "distinct (map pair_of (add_cooccurrence cn (a, b) cs))
       \<and> (\<forall>c\<in>set (add_cooccurrence cn (a, b) cs). source_entity c < target_entity c)"
  using assms by (simp add: distinct_add_cooccurrence ordered_add_cooccurrence)

lemma canonical_fold_pairs:
  assumes "distinct (map pair_of cs)" and "\<forall>c\<in>set cs. source_entity c < target_entity c"
    and "\<forall>p\<in>set ps. fst p < snd p"
  shows "distinct (map pair_of (fold (add_cooccurrence cn) ps cs))
       \<and> (\<forall>c\<in>set (fold (add_cooccurrence cn) ps cs). source_entity c < target_entity c)"
  using assms
proof (induction ps arbitrary: cs)
  case Nil
  then show ?case by simp
next
  case (Cons p ps)
  obtain a b where p: "p = (a, b)" by (cases p)
  with Cons.prems(3) have "a < b" by simp
  with Cons.prems(1,2) have
    "distinct (map pair_of (add_cooccurrence cn (a, b) cs))
     \<and> (\<forall>c\<in>set (add_cooccurrence cn (a, b) cs). source_entity c < target_entity c)"
    by (intro canonical_add_cooccurrence)
  with Cons.IH [of "add_cooccurrence cn (a, b) cs"] Cons.prems(3) p show ?case by simp
qed

lemma canonical_fold_claims:
  assumes "distinct (map pair_of cs)" and "\<forall>c\<in>set cs. source_entity c < target_entity c"
  shows "distinct (map pair_of (fold add_claim claims cs))
       \<and> (\<forall>c\<in>set (fold add_claim claims cs). source_entity c < target_entity c)"
  using assms
proof (induction claims arbitrary: cs)
  case Nil
  then show ?case by simp
next
  case (Cons cl claims)
  have "\<forall>p\<in>set (entity_pairs (claim_entities cl)). fst p < snd p"
    by (auto dest: entity_pairs_ordered)
  with Cons.prems have
    "distinct (map pair_of (add_claim cl cs))
     \<and> (\<forall>c\<in>set (add_claim cl cs). source_entity c < target_entity c)"
    unfolding add_claim_def by (intro canonical_fold_pairs)
  with Cons.IH [of "add_claim cl cs"] show ?case by simp
qed

lemma filter_key_at_most_one:
  "distinct (map f xs) \<Longrightarrow> length (filter (\<lambda>x. f x = k) xs) \<le> 1"
proof (induction xs)
  case Nil
  show ?case by simp
next
  case (Cons x xs)
  show ?case
  proof (cases "f x = k")
    case True
    from Cons.prems have "f x \<notin> f ` set xs" by simp
    with True have "\<forall>y\<in>set xs. f y \<noteq> k" by (metis imageI)
    then have "filter (\<lambda>x. f x = k) xs = []" by (simp add: filter_empty_conv)
    with True show ?thesis by simp
  next
    case False
    with Cons show ?thesis by simp
  qed
qed

lemma records_joining_at_most_one:
  assumes "distinct (map pair_of cs)" and "\<forall>c\<in>set cs. source_entity c < target_entity c"
  shows "length (records_joining a b cs) \<le> 1"
proof -
  let ?k = "(min a b, max a b)"
  have "{source_entity c, target_entity c} = {a, b} \<longrightarrow> pair_of c = ?k" if "c \<in> set cs" for c
  proof
    assume eq: "{source_entity c, target_entity c} = {a, b}"
    from that assms(2) have lt: "source_entity c < target_entity c" by blast
    from eq have "(source_entity c = a \<and> target_entity c = b) \<or> (source_entity c = b \<and> target_entity c = a)"
      by (auto simp: doubleton_eq_iff)
    with lt show "pair_of c = ?k" by (auto simp: pair_of_def min_def max_def)
  qed
  then have "records_joining a b cs
      = filter (\<lambda>c. {source_entity c, target_entity c} = {a, b}) (filter (\<lambda>c. pair_of c = ?k) cs)"
    unfolding records_joining_def by (auto intro: filter_cong)
  then have "length (records_joining a b cs)
      = length (filter (\<lambda>c. {source_entity c, target_entity c} = {a, b})
          (filter (\<lambda>c. pair_of c = ?k) cs))"
    by (simp only:)
  also have "\<dots> \<le> length (filter (\<lambda>c. pair_of c = ?k) cs)"
    by (rule length_filter_le)
  also have "\<dots> \<le> 1" using assms(1) by (rule filter_key_at_most_one)
  finally show ?thesis .
qed

text \<open>
  C4. In the Connection table built from any list of claims, at most one record joins any
  two entities (in either order), no record has its source equal to its target, and every
  record has its source lexicographically less than its target.
\<close>

theorem build_connections_canonical:
  "length (records_joining a b (build_connections claims)) \<le> 1
   \<and> (\<forall>c\<in>set (build_connections claims).
         source_entity c \<noteq> target_entity c \<and> source_entity c < target_entity c)"
proof -
  have inv: "distinct (map pair_of (build_connections claims))
       \<and> (\<forall>c\<in>set (build_connections claims). source_entity c < target_entity c)"
    unfolding build_connections_def by (rule canonical_fold_claims) simp_all
  then have "length (records_joining a b (build_connections claims)) \<le> 1"
    by (intro records_joining_at_most_one) simp_all
  with inv show ?thesis by auto
qed

theorem build_connections_canonical_witness:
  "build_connections scenario_claims =
     [\<lparr>source_entity = ''Dr. A'', target_entity = ''Lawyer B'', connection_strength = 2,
        shared_claim_numbers = [''WC-2024-001'', ''WC-2024-002'']\<rparr>,
      \<lparr>source_entity = ''Business C'', target_entity = ''Dr. A'', connection_strength = 1,
        shared_claim_numbers = [''WC-2024-002'']\<rparr>,
      \<lparr>source_entity = ''Business C'', target_entity = ''Lawyer B'', connection_strength = 1,
        shared_claim_numbers = [''WC-2024-002'']\<rparr>]
   \<and> length (records_joining ''Lawyer B'' ''Dr. A'' (build_connections scenario_claims)) = 1
   \<and> length (records_joining ''Dr. A'' ''Dr. A'' (build_connections scenario_claims)) = 0"
proof -
  have b: "build_connections scenario_claims =
     [\<lparr>source_entity = ''Dr. A'', target_entity = ''Lawyer B'', connection_strength = 2,
        shared_claim_numbers = [''WC-2024-001'', ''WC-2024-002'']\<rparr>,
      \<lparr>source_entity = ''Business C'', target_entity = ''Dr. A'', connection_strength = 1,
        shared_claim_numbers = [''WC-2024-002'']\<rparr>,
      \<lparr>source_entity = ''Business C'', target_entity = ''Lawyer B'', connection_strength = 1,
        shared_claim_numbers = [''WC-2024-002'']\<rparr>]"
    by (simp add: build_connections_def add_claim_def entity_pairs_def scenario_claims_def)
  have none: "length (records_joining ''Dr. A'' ''Dr. A'' (build_connections scenario_claims)) = 0"
    by (simp add: b records_joining_def)
  have one: "length (records_joining ''Lawyer B'' ''Dr. A'' (build_connections scenario_claims)) = 1"
    by (simp add: b records_joining_def doubleton_eq_iff)
  from b none one show ?thesis
    using build_connections_canonical [of "''Lawyer B''" "''Dr. A''" scenario_claims] by simp
qed

subsection \<open>Missing external source\<close>

text \<open>
  C5. When the external source is absent or unreadable and the generator's values lie
  between 0 and 1, the loader returns a score table and no error; the table has a score
  for each claim of the corpus and for nothing else, every score lies between 0 and 1,
  its flag says the data is simulated, and the aggregator's output for the run is produced
  and carries that flag.
\<close>

theorem load_external_scores_fallback:
  assumes "src = Absent \<or> src = Unreadable" and "\<forall>cn. 0 \<le> draw cn \<and> draw cn \<le> 1"
  shows "\<exists>tbl out.
           load_external_scores src draw cns = Inr tbl
           \<and> simulated tbl
           \<and> dom (external_scores tbl) = set cns
           \<and> (\<forall>cn s. external_scores tbl cn = Some s \<longrightarrow> 0 \<le> s \<and> s \<le> 1)
           \<and> run_external src draw cns ecs = Inr out
           \<and> used_simulated_data out"
proof -
  let ?tbl = "\<lparr>external_scores = simulate_scores draw cns, simulated = True\<rparr>"
  from assms(1) have l: "load_external_scores src draw cns = Inr ?tbl"
    by (auto simp: load_external_scores_def)
  have d: "dom (external_scores ?tbl) = set cns"
    by (auto simp: simulate_scores_def dom_def)
  have b: "\<forall>cn s. external_scores ?tbl cn = Some s \<longrightarrow> 0 \<le> s \<and> s \<le> 1"
    using assms(2) by (auto simp: simulate_scores_def split: if_splits)
  have r: "run_external src draw cns ecs = Inr (aggregate_external ?tbl ecs)"
    by (simp add: run_external_def l)
  have f: "used_simulated_data (aggregate_external ?tbl ecs)"
    by (simp add: aggregate_external_def)
  from l d b r f show ?thesis by (intro exI [of _ ?tbl] exI [of _ "aggregate_external ?tbl ecs"]) simp
qed

theorem load_external_scores_fallback_witness:
  "(\<exists>tbl out.
      load_external_scores Absent (\<lambda>cn. 1 / 2) [''WC-2024-001'', ''WC-2024-002''] = Inr tbl
      \<and> simulated tbl
      \<and> external_scores tbl ''WC-2024-002'' = Some (1 / 2)
      \<and> external_scores tbl ''WC-2024-003'' = None
      \<and> run_external Absent (\<lambda>cn. 1 / 2) [''WC-2024-001'', ''WC-2024-002'']
            [(''Dr. A'', [''WC-2024-001''])] = Inr out
      \<and> used_simulated_data out)"
proof -
  have a: "Absent = Absent \<or> Absent = Unreadable" by simp
  have g: "\<forall>cn::string. (0::real) \<le> 1 / 2 \<and> (1::real) / 2 \<le> 1" by simp
  from load_external_scores_fallback [OF a g, of "[''WC-2024-001'', ''WC-2024-002'']"
      "[(''Dr. A'', [''WC-2024-001''])]"]
  obtain tbl out where
    l: "load_external_scores Absent (\<lambda>cn. 1 / 2) [''WC-2024-001'', ''WC-2024-002''] = Inr tbl"
    and s: "simulated tbl"
    and r: "run_external Absent (\<lambda>cn. 1 / 2) [''WC-2024-001'', ''WC-2024-002'']
            [(''Dr. A'', [''WC-2024-001''])] = Inr out"
    and u: "used_simulated_data out"
    by blast
  from l have "external_scores tbl = simulate_scores (\<lambda>cn. 1 / 2) [''WC-2024-001'', ''WC-2024-002'']"
    by (auto simp: load_external_scores_def)
  then have "external_scores tbl ''WC-2024-002'' = Some (1 / 2)"
    and "external_scores tbl ''WC-2024-003'' = None"
    by (simp_all add: simulate_scores_def)
  with l s r u show ?thesis by blast
qed

end
